theory Spec2Isabelle
  imports Main "HOL-Library.AList"
begin

section \<open>Strings and numbers of the host language\<close>

text \<open>
  A JavaScript string is a sequence of UTF-16 code units; it is modelled as a list of
  their numeric values. \<open>js\<close> writes a literal of the source.
\<close>

type_synonym jsstring = "nat list"

definition js :: "string \<Rightarrow> jsstring" where
  "js s = map of_char s"

text \<open>
  The characters matched by \<open>\s\<close> in a regular expression and removed by
  \<open>String.prototype.trim\<close>: the WhiteSpace and LineTerminator code points of ECMAScript
  (TAB, LF, VT, FF, CR, SPACE, NBSP, U+1680, U+2000 to U+200A, U+2028, U+2029, U+202F,
  U+205F, U+3000, U+FEFF).
\<close>

definition isWhiteSpace :: "nat \<Rightarrow> bool" where
  "isWhiteSpace c \<longleftrightarrow>
     (9 \<le> c \<and> c \<le> 13) \<or> c = 32 \<or> c = 160 \<or> c = 5760 \<or> (8192 \<le> c \<and> c \<le> 8202) \<or>
     c = 8232 \<or> c = 8233 \<or> c = 8239 \<or> c = 8287 \<or> c = 12288 \<or> c = 65279"

definition trim :: "jsstring \<Rightarrow> jsstring" where
  "trim s = rev (dropWhile isWhiteSpace (rev (dropWhile isWhiteSpace s)))"

text \<open>
  \<open>Number.prototype.toString\<close> on a non-negative integer: its decimal digits.
  (Numbers of the source are doubles; the model is exact for the integers below \<open>2^53\<close>.)
\<close>

fun toString :: "nat \<Rightarrow> jsstring" where
  "toString n = (if n < 10 then [48 + n] else toString (n div 10) @ [48 + n mod 10])"

declare toString.simps [simp del]

text \<open>\<open>String.prototype.padStart\<close> with a one-character filler.\<close>

definition padStart :: "nat \<Rightarrow> nat \<Rightarrow> jsstring \<Rightarrow> jsstring" where
  "padStart targetLength c s = replicate (targetLength - length s) c @ s"

section \<open>Timestamps of topics\<close>

text \<open>
  \<^verbatim>\<open>formatTimestamp(seconds)\<close>: \<open>Math.floor(seconds / 60)\<close>, \<open>seconds % 60\<close> and the
  template \<open>minutes:remainingSeconds\<close> with the seconds padded to two characters.
\<close>

definition formatTimestamp :: "nat \<Rightarrow> jsstring" where
  "formatTimestamp seconds =
     (let minutes = seconds div 60;
          remainingSeconds = seconds mod 60
      in toString minutes @ js '':'' @ padStart 2 48 (toString remainingSeconds))"

section \<open>The title of the tab\<close>

text \<open>
  The regular expression \<^verbatim>\<open>/\s*-\s*YouTube$/\<close> tried at one start position: white space,
  a hyphen, white space, the word, and then the end of the string. No white-space
  character is a hyphen or the letter Y, so the greedy runs are the only way to match.
\<close>

definition matchSuffixAt :: "jsstring \<Rightarrow> bool" where
  "matchSuffixAt s =
     (case dropWhile isWhiteSpace s of
        [] \<Rightarrow> False
      | c # r \<Rightarrow> c = 45 \<and> dropWhile isWhiteSpace r = js ''YouTube'')"

text \<open>
  \<^verbatim>\<open>title.replace(/\s*-\s*YouTube$/, '')\<close>: the expression has no \<open>g\<close> flag, so the
  first start position (from the left) at which it matches is replaced, and a match ends
  at the end of the string: what is left is the text before that position.
\<close>

fun cleanTitle :: "jsstring \<Rightarrow> jsstring" where
  "cleanTitle [] = []"
| "cleanTitle (c # cs) = (if matchSuffixAt (c # cs) then [] else c # cleanTitle cs)"

text \<open>Whether the expression matches at some start position of the title.\<close>

fun hasSuffix :: "jsstring \<Rightarrow> bool" where
  "hasSuffix [] = False"
| "hasSuffix (c # cs) = (matchSuffixAt (c # cs) \<or> hasSuffix cs)"

text \<open>The content script cleans the title of the page the same way and trims it.\<close>

definition cleanPageTitle :: "jsstring \<Rightarrow> jsstring" where
  "cleanPageTitle title = trim (cleanTitle title)"

section \<open>The address of the tab\<close>

text \<open>
  What the code reads of a parsed \<open>URL\<close> object. \<open>searchParams\<close> is the list of
  name-value pairs in the order of the query string.
\<close>

record URL =
  hostname :: jsstring
  pathname :: jsstring
  searchParams :: "(jsstring \<times> jsstring) list"

definition searchParams_has :: "(jsstring \<times> jsstring) list \<Rightarrow> jsstring \<Rightarrow> bool" where
  "searchParams_has ps name = (map_of ps name \<noteq> None)"

text \<open>\<open>URLSearchParams.get\<close>: the value of the first pair with the name, or null.\<close>

definition searchParams_get :: "(jsstring \<times> jsstring) list \<Rightarrow> jsstring \<Rightarrow> jsstring option" where
  "searchParams_get ps name = map_of ps name"

text \<open>
  The constructor \<open>new URL(url)\<close> belongs to the browser. The functions below take it as
  the parameter \<open>parse\<close>; \<open>None\<close> is the TypeError it throws on a string that is no
  absolute URL.

  \<^verbatim>\<open>isYouTubeVideoPage(url)\<close> of the popup: a falsy address is no video page, and the
  \<open>catch\<close> turns a parse error into \<open>false\<close>.
\<close>

definition isYouTubeVideoPage :: "(jsstring \<Rightarrow> URL option) \<Rightarrow> jsstring \<Rightarrow> bool" where
  "isYouTubeVideoPage parse url =
     (if url = [] then False
      else case parse url of
             None \<Rightarrow> False
           | Some urlObj \<Rightarrow>
               hostname urlObj = js ''www.youtube.com'' \<and>
               pathname urlObj = js ''/watch'' \<and>
               searchParams_has (searchParams urlObj) (js ''v''))"

text \<open>\<^verbatim>\<open>isValidYouTubeVideoPage()\<close> of the content script, on \<open>window.location.href\<close>.\<close>

definition isValidYouTubeVideoPage :: "(jsstring \<Rightarrow> URL option) \<Rightarrow> jsstring \<Rightarrow> bool" where
  "isValidYouTubeVideoPage parse href =
     (case parse href of
        None \<Rightarrow> False
      | Some urlObj \<Rightarrow>
          hostname urlObj = js ''www.youtube.com'' \<and>
          pathname urlObj = js ''/watch'' \<and>
          searchParams_has (searchParams urlObj) (js ''v''))"

record videoInfo =
  videoId :: jsstring
  videoUrl :: jsstring
  title :: jsstring
  fullUrl :: jsstring

text \<open>
  \<^verbatim>\<open>extractVideoInfo(url, title)\<close>: \<open>None\<close> is the \<open>null\<close> it returns, from the
  \<open>catch\<close> or when the value of \<open>v\<close> is falsy (absent or the empty string).
\<close>

definition extractVideoInfo ::
  "(jsstring \<Rightarrow> URL option) \<Rightarrow> jsstring \<Rightarrow> jsstring \<Rightarrow> videoInfo option" where
  "extractVideoInfo parse url ttl =
     (case parse url of
        None \<Rightarrow> None
      | Some urlObj \<Rightarrow>
          (case searchParams_get (searchParams urlObj) (js ''v'') of
             None \<Rightarrow> None
           | Some vid \<Rightarrow>
               if vid = [] then None
               else Some \<lparr>videoId = vid, videoUrl = url, title = cleanTitle ttl,
                          fullUrl = url\<rparr>))"

text \<open>
  For concrete addresses: the parse of a plain \<open>https\<close> address
  \<open>https://host/path?name=value&...#fragment\<close> whose host is lower-case labels joined by
  dots and whose path and query need no decoding or normalisation. On these the browser's
  constructor returns the parts as they are written; strings of any other form are not
  covered (\<open>None\<close>).
\<close>

fun splitOn :: "nat \<Rightarrow> jsstring \<Rightarrow> jsstring list" where
  "splitOn d [] = [[]]"
| "splitOn d (c # cs) =
     (if c = d then [] # splitOn d cs
      else (case splitOn d cs of [] \<Rightarrow> [[c]] | p # ps \<Rightarrow> (c # p) # ps))"

definition isLower :: "nat \<Rightarrow> bool" where
  "isLower c \<longleftrightarrow> 97 \<le> c \<and> c \<le> 122"

definition isPlain :: "nat \<Rightarrow> bool" where
  "isPlain c \<longleftrightarrow> isLower c \<or> (65 \<le> c \<and> c \<le> 90) \<or> (48 \<le> c \<and> c \<le> 57) \<or> c = 95 \<or> c = 45"

definition parseQuery :: "jsstring \<Rightarrow> (jsstring \<times> jsstring) list" where
  "parseQuery q =
     map (\<lambda>p. (takeWhile (\<lambda>c. c \<noteq> 61) p, drop (Suc (length (takeWhile (\<lambda>c. c \<noteq> 61) p))) p))
       (filter (\<lambda>p. p \<noteq> []) (splitOn 38 q))"

definition plainURL :: "jsstring \<Rightarrow> URL option" where
  "plainURL u =
     (let beforeFragment = takeWhile (\<lambda>c. c \<noteq> 35) u;
          beforeQuery = takeWhile (\<lambda>c. c \<noteq> 63) beforeFragment;
          query = drop (Suc (length beforeQuery)) beforeFragment;
          rest = drop 8 beforeQuery;
          host = takeWhile (\<lambda>c. c \<noteq> 47) rest;
          path = dropWhile (\<lambda>c. c \<noteq> 47) rest
      in if take 8 beforeQuery = js ''https://'' \<and>
            list_all (\<lambda>l. l \<noteq> [] \<and> list_all isLower l) (splitOn 46 host) \<and>
            list_all (\<lambda>c. isPlain c \<or> c = 47) path \<and>
            list_all (\<lambda>c. isPlain c \<or> c = 61 \<or> c = 38) query
         then Some \<lparr>hostname = host, pathname = (if path = [] then js ''/'' else path),
                    searchParams = parseQuery query\<rparr>
         else None)"

section \<open>The document and the controller\<close>

text \<open>\<open>style.display\<close> as the code sets it: \<open>'block'\<close> or \<open>'none'\<close>.\<close>

datatype display = Block | Hidden

text \<open>\<open>style.pointerEvents\<close>: \<open>'auto'\<close> or \<open>'none'\<close>.\<close>

datatype pointerEvents = Auto | NoEvents

text \<open>
  An option of a question in the quiz section: its text, whether its class list holds
  \<open>selected\<close>, \<open>correct\<close> and \<open>incorrect\<close>, and its pointer events.
\<close>

record optionDiv =
  optionText :: jsstring
  selected :: bool
  correct :: bool
  incorrect :: bool
  optionPointerEvents :: pointerEvents

record questionDiv =
  questionText :: jsstring
  options :: "optionDiv list"

text \<open>A question as the backend sends it (\<open>question\<close>, \<open>options\<close>, \<open>correct_answer\<close>).\<close>

record quizQuestion =
  question :: jsstring
  answerOptions :: "jsstring list"
  correct_answer :: int

record topicItem =
  topic :: jsstring
  timestamp :: nat

text \<open>A message of the chat: the class \<open>chat-user\<close> or \<open>chat-bot\<close> and the text.\<close>

datatype sender = User | Bot

record messageDiv =
  sender :: sender
  textContent :: jsstring

text \<open>The body of a request to the backend, by endpoint.\<close>

datatype request =
    GenerateQuiz jsstring jsstring jsstring nat
  | VerifyAnswers jsstring jsstring "(nat \<times> nat) list" "quizQuestion list"
  | GenerateSummary jsstring jsstring
  | GenerateTopics jsstring jsstring
  | Chat jsstring jsstring jsstring

text \<open>
  An asynchronous function that waits at its \<open>await\<close>: the tab query of the start, the
  four actions, and a chat call with the placeholder it will fill.
\<close>

datatype pending =
    AwaitTab | AwaitQuiz | AwaitVerify | AwaitSummary | AwaitTopics | AwaitChat nat

datatype kind = ErrorKind | SuccessKind

text \<open>
  The controller's fields, the parts of the document it reads and writes, and the
  environment: the clock with the timers set by \<open>setTimeout\<close>, the requests sent so far
  and the calls that wait. The messages of the chat are nodes: \<open>nodes\<close> holds every
  message element created so far, \<open>chatMessages\<close> the children of the chat container
  in order, as indices into \<open>nodes\<close>.
\<close>

record popup =
  currentVideo :: "videoInfo option"
  selectedDifficulty :: jsstring
  quizData :: "quizQuestion list option"
  userAnswers :: "(nat \<times> nat) list"
  videoTitle :: jsstring
  videoUrlText :: jsstring
  actionBtnDisabled :: bool
  loading :: display
  controlsOpacity :: string
  controlsPointerEvents :: pointerEvents
  errorMessage :: jsstring
  errorDisplay :: display
  successMessage :: jsstring
  successDisplay :: display
  results :: display
  quizSection :: display
  summarySection :: display
  topicsSection :: display
  chatSection :: display
  quizContent :: "questionDiv list"
  submitQuizBtn :: display
  summaryContent :: jsstring
  topicsContent :: "(jsstring \<times> jsstring) list"
  chatInput :: jsstring
  chatInputDisabled :: bool
  sendChatBtnDisabled :: bool
  chatMessages :: "nat list"
  nodes :: "messageDiv list"
  now :: nat
  timers :: "(nat \<times> kind) list"
  requests :: "request list"
  awaiting :: "pending list"

subsection \<open>Notifications and the loading indicator\<close>

definition showError :: "jsstring \<Rightarrow> popup \<Rightarrow> popup" where
  "showError message s =
     s\<lparr>errorMessage := message, errorDisplay := Block, successDisplay := Hidden,
       timers := timers s @ [(now s + 5000, ErrorKind)]\<rparr>"

definition showSuccess :: "jsstring \<Rightarrow> popup \<Rightarrow> popup" where
  "showSuccess message s =
     s\<lparr>successMessage := message, successDisplay := Block, errorDisplay := Hidden,
       timers := timers s @ [(now s + 3000, SuccessKind)]\<rparr>"

text \<open>The callback of a timer.\<close>

fun timerCallback :: "kind \<Rightarrow> popup \<Rightarrow> popup" where
  "timerCallback ErrorKind s = s\<lparr>errorDisplay := Hidden\<rparr>"
| "timerCallback SuccessKind s = s\<lparr>successDisplay := Hidden\<rparr>"

definition showLoading :: "bool \<Rightarrow> popup \<Rightarrow> popup" where
  "showLoading show s =
     (if show
      then s\<lparr>loading := Block, controlsOpacity := ''0.5'', controlsPointerEvents := NoEvents\<rparr>
      else s\<lparr>loading := Hidden, controlsOpacity := ''1'', controlsPointerEvents := Auto\<rparr>)"

definition disableControls :: "popup \<Rightarrow> popup" where
  "disableControls s = s\<lparr>actionBtnDisabled := True\<rparr>"

definition enableControls :: "popup \<Rightarrow> popup" where
  "enableControls s = s\<lparr>actionBtnDisabled := False\<rparr>"

definition updateVideoInfo :: "videoInfo \<Rightarrow> popup \<Rightarrow> popup" where
  "updateVideoInfo v s = s\<lparr>videoTitle := title v, videoUrlText := videoUrl v\<rparr>"

subsection \<open>Calls to the backend\<close>

text \<open>
  How a \<open>fetch\<close> ends: a response that is ok, with its JSON body; a response with
  another status; or a rejection (of \<open>fetch\<close> or of \<open>response.json()\<close>) with a message.
\<close>

datatype 'a outcome = Resolved 'a | HttpError nat | FetchFailed jsstring

text \<open>
  \<^verbatim>\<open>makeApiCall\<close> after the \<open>fetch\<close>: \<open>Inr\<close> the body, or \<open>Inl\<close> the message of the
  error it throws. The error for a status is thrown inside the \<open>try\<close> and wrapped by
  the \<open>catch\<close> as well.
\<close>

fun makeApiCall :: "'a outcome \<Rightarrow> jsstring + 'a" where
  "makeApiCall (Resolved body) = Inr body"
| "makeApiCall (HttpError status) =
     Inl (js ''Failed to connect to backend: '' @ js ''HTTP error! status: '' @ toString status)"
| "makeApiCall (FetchFailed message) = Inl (js ''Failed to connect to backend: '' @ message)"

text \<open>
  The message of the TypeError of the browser's engine for \<open>this.currentVideo.videoId\<close>
  when \<open>currentVideo\<close> is \<open>null\<close>.
\<close>

definition nullVideoMessage :: jsstring where
  "nullVideoMessage = js ''Cannot read properties of null (reading 'videoId')''"

subsection \<open>Start: the video of the active tab\<close>

text \<open>What \<open>chrome.tabs.query\<close> gives: a rejection, no tab, or the tab's address and title.\<close>

datatype tabResult = QueryFailed jsstring | NoTab | Tab jsstring jsstring

fun loadVideoInfo :: "(jsstring \<Rightarrow> URL option) \<Rightarrow> tabResult \<Rightarrow> popup \<Rightarrow> popup" where
  "loadVideoInfo parse (QueryFailed message) s =
     showError (js ''Error loading video information: '' @ message) s"
| "loadVideoInfo parse NoTab s = showError (js ''Unable to access current tab'') s"
| "loadVideoInfo parse (Tab url ttl) s =
     (if \<not> isYouTubeVideoPage parse url
      then disableControls
             (showError (js ''Please navigate to a YouTube video page to use this extension'') s)
      else case extractVideoInfo parse url ttl of
             None \<Rightarrow> showError (js ''Unable to extract video information'') s
           | Some v \<Rightarrow>
               showSuccess (js ''Video detected successfully!'')
                 (updateVideoInfo v (s\<lparr>currentVideo := Some v\<rparr>)))"

subsection \<open>The quiz\<close>

text \<open>The four sections of the results container: one is shown, the others hidden.\<close>

datatype panel = QuizPanel | SummaryPanel | TopicsPanel | ChatPanel

definition freshOption :: "jsstring \<Rightarrow> optionDiv" where
  "freshOption text =
     \<lparr>optionText = text, selected = False, correct = False, incorrect = False,
      optionPointerEvents = Auto\<rparr>"

definition freshQuestion :: "nat \<times> quizQuestion \<Rightarrow> questionDiv" where
  "freshQuestion iq =
     \<lparr>questionText = toString (fst iq + 1) @ js ''. '' @ question (snd iq),
      options = map freshOption (answerOptions (snd iq))\<rparr>"

text \<open>
  \<^verbatim>\<open>displayQuiz(quizData)\<close>: the content is rebuilt, the answers are reset, and the quiz
  section is shown.
\<close>

definition displayQuiz :: "quizQuestion list \<Rightarrow> popup \<Rightarrow> popup" where
  "displayQuiz questions s =
     s\<lparr>quizContent := map freshQuestion (enumerate 0 questions),
       userAnswers := [],
       results := Block, quizSection := Block,
       summarySection := Hidden, topicsSection := Hidden, chatSection := Hidden\<rparr>"

text \<open>
  The click listener of option \<open>optionIndex\<close> of question \<open>index\<close>: the selection of
  the question's options is removed, the option is selected, and the answer is stored.
  The listener belongs to the option element; where the content has no such element there
  is nothing to click.
\<close>

definition selectOption :: "nat \<Rightarrow> nat \<Rightarrow> popup \<Rightarrow> popup" where
  "selectOption index optionIndex s =
     (if index < length (quizContent s) \<and> optionIndex < length (options (quizContent s ! index))
      then (let q = quizContent s ! index;
                opts = map (\<lambda>opt. opt\<lparr>selected := False\<rparr>) (options q);
                opts' = opts[optionIndex := (opts ! optionIndex)\<lparr>selected := True\<rparr>]
            in s\<lparr>quizContent := (quizContent s)[index := q\<lparr>options := opts'\<rparr>],
                 userAnswers := AList.update index optionIndex (userAnswers s)\<rparr>)
      else s)"

text \<open>
  \<^verbatim>\<open>generateQuiz()\<close> up to its \<open>await\<close>, and from there on with the outcome of the call.
\<close>

definition generateQuiz :: "popup \<Rightarrow> popup" where
  "generateQuiz s =
     (case currentVideo s of
        None \<Rightarrow> showError (js ''No video detected'') s
      | Some v \<Rightarrow>
          (showLoading True s)
            \<lparr>requests := requests s @ [GenerateQuiz (videoId v) (videoUrl v) (selectedDifficulty s) 5],
             awaiting := awaiting s @ [AwaitQuiz]\<rparr>)"

definition generateQuiz_settled :: "quizQuestion list outcome \<Rightarrow> popup \<Rightarrow> popup" where
  "generateQuiz_settled r s =
     showLoading False
       (case makeApiCall r of
          Inl message \<Rightarrow> showError message s
        | Inr response \<Rightarrow>
            showSuccess (js ''Quiz generated successfully!'')
              (displayQuiz response (s\<lparr>quizData := Some response\<rparr>)))"

text \<open>
  The marks of one option in \<^verbatim>\<open>displayQuizResults\<close>: \<open>correctAnswer\<close> is the number of
  the quiz data, \<open>userAnswer\<close> the stored answer (\<open>None\<close> for \<open>undefined\<close>).
\<close>

definition gradeOption :: "int \<Rightarrow> nat option \<Rightarrow> nat \<times> optionDiv \<Rightarrow> optionDiv" where
  "gradeOption correctAnswer userAnswer io =
     (let optionIndex = fst io;
          opt = (snd io)\<lparr>optionPointerEvents := NoEvents\<rparr>
      in if int optionIndex = correctAnswer then opt\<lparr>correct := True\<rparr>
         else if Some optionIndex = userAnswer \<and> map_option int userAnswer \<noteq> Some correctAnswer
              then opt\<lparr>incorrect := True\<rparr>
         else opt)"

definition gradeQuestion :: "int \<Rightarrow> nat option \<Rightarrow> questionDiv \<Rightarrow> questionDiv" where
  "gradeQuestion correctAnswer userAnswer q =
     q\<lparr>options := map (gradeOption correctAnswer userAnswer) (enumerate 0 (options q))\<rparr>"

text \<open>
  The loop over the question elements, from question \<open>index\<close> on. Reading
  \<open>correct_answer\<close> of a question that the quiz data does not have throws a TypeError;
  the elements before it stay marked. The flag tells whether the loop came to its end.
\<close>

fun gradeFrom ::
  "quizQuestion list \<Rightarrow> (nat \<times> nat) list \<Rightarrow> nat \<Rightarrow> questionDiv list \<Rightarrow> questionDiv list \<times> bool" where
  "gradeFrom qs answers index [] = ([], True)"
| "gradeFrom qs answers index (q # rest) =
     (if index < length qs
      then (let r = gradeFrom qs answers (Suc index) rest
            in (gradeQuestion (correct_answer (qs ! index)) (map_of answers index) q # fst r, snd r))
      else (q # rest, False))"

text \<open>
  \<^verbatim>\<open>displayQuizResults(results)\<close>: the state it leaves, and the message of the
  TypeError if it throws: in the loop, or at the first question element when there is no
  quiz data at all.
\<close>

definition noQuestionMessage :: jsstring where
  "noQuestionMessage = js ''Cannot read properties of undefined (reading 'correct_answer')''"

definition noQuizMessage :: jsstring where
  "noQuizMessage = js ''Cannot read properties of null (reading 'questions')''"

definition displayQuizResults :: "popup \<Rightarrow> popup \<times> jsstring option" where
  "displayQuizResults s =
     (case quizData s of
        None \<Rightarrow> (if quizContent s = [] then (s\<lparr>submitQuizBtn := Hidden\<rparr>, None)
                 else (s, Some noQuizMessage))
      | Some qs \<Rightarrow>
          (let r = gradeFrom qs (userAnswers s) 0 (quizContent s)
           in if snd r then (s\<lparr>quizContent := fst r, submitQuizBtn := Hidden\<rparr>, None)
              else (s\<lparr>quizContent := fst r\<rparr>, Some noQuestionMessage)))"

definition submitQuiz :: "popup \<Rightarrow> popup" where
  "submitQuiz s =
     (if quizData s = None \<or> userAnswers s = []
      then showError (js ''Please answer at least one question before submitting'') s
      else case currentVideo s of
             None \<Rightarrow> showLoading False (showError nullVideoMessage (showLoading True s))
           | Some v \<Rightarrow>
               (showLoading True s)
                 \<lparr>requests := requests s @
                    [VerifyAnswers (videoId v) (videoUrl v) (userAnswers s)
                       (case quizData s of None \<Rightarrow> [] | Some qs \<Rightarrow> qs)],
                  awaiting := awaiting s @ [AwaitVerify]\<rparr>)"

definition submitQuiz_settled :: "unit outcome \<Rightarrow> popup \<Rightarrow> popup" where
  "submitQuiz_settled r s =
     showLoading False
       (case makeApiCall r of
          Inl message \<Rightarrow> showError message s
        | Inr response \<Rightarrow>
            (let d = displayQuizResults s
             in case snd d of
                  None \<Rightarrow> showSuccess (js ''Quiz submitted successfully!'') (fst d)
                | Some message \<Rightarrow> showError message (fst d)))"

subsection \<open>Summary and topics\<close>

definition displaySummary :: "jsstring \<Rightarrow> popup \<Rightarrow> popup" where
  "displaySummary summary s =
     s\<lparr>summaryContent := summary,
       results := Block, summarySection := Block,
       quizSection := Hidden, topicsSection := Hidden, chatSection := Hidden\<rparr>"

definition generateSummary :: "popup \<Rightarrow> popup" where
  "generateSummary s =
     (case currentVideo s of
        None \<Rightarrow> showError (js ''No video detected'') s
      | Some v \<Rightarrow>
          (showLoading True s)
            \<lparr>requests := requests s @ [GenerateSummary (videoId v) (videoUrl v)],
             awaiting := awaiting s @ [AwaitSummary]\<rparr>)"

definition generateSummary_settled :: "jsstring outcome \<Rightarrow> popup \<Rightarrow> popup" where
  "generateSummary_settled r s =
     showLoading False
       (case makeApiCall r of
          Inl message \<Rightarrow> showError message s
        | Inr summary \<Rightarrow>
            showSuccess (js ''Summary generated successfully!'') (displaySummary summary s))"

text \<open>
  \<^verbatim>\<open>displayTopics(topics)\<close>: an entry per topic, with the name and the formatted time
  that the markup of the entry holds.
\<close>

definition displayTopics :: "topicItem list \<Rightarrow> popup \<Rightarrow> popup" where
  "displayTopics topics s =
     s\<lparr>topicsContent := map (\<lambda>t. (topic t, formatTimestamp (timestamp t))) topics,
       results := Block, topicsSection := Block,
       quizSection := Hidden, summarySection := Hidden, chatSection := Hidden\<rparr>"

definition extractTopics :: "popup \<Rightarrow> popup" where
  "extractTopics s =
     (case currentVideo s of
        None \<Rightarrow> showError (js ''No video detected'') s
      | Some v \<Rightarrow>
          (showLoading True s)
            \<lparr>requests := requests s @ [GenerateTopics (videoId v) (videoUrl v)],
             awaiting := awaiting s @ [AwaitTopics]\<rparr>)"

definition extractTopics_settled :: "topicItem list outcome \<Rightarrow> popup \<Rightarrow> popup" where
  "extractTopics_settled r s =
     showLoading False
       (case makeApiCall r of
          Inl message \<Rightarrow> showError message s
        | Inr topics \<Rightarrow>
            showSuccess (js ''Topics extracted successfully!'') (displayTopics topics s))"

subsection \<open>The chat\<close>

definition startChat :: "popup \<Rightarrow> popup" where
  "startChat s =
     (case currentVideo s of
        None \<Rightarrow> showError (js ''No video detected'') s
      | Some v \<Rightarrow>
          showSuccess (js ''Chat started! Ask questions about the video.'')
            (s\<lparr>results := Block, chatSection := Block,
               quizSection := Hidden, summarySection := Hidden, topicsSection := Hidden,
               chatMessages := []\<rparr>))"

text \<open>\<^verbatim>\<open>addChatMessage(message, sender)\<close>: a new element, appended to the container.\<close>

definition addChatMessage :: "jsstring \<Rightarrow> sender \<Rightarrow> popup \<Rightarrow> popup" where
  "addChatMessage message who s =
     s\<lparr>nodes := nodes s @ [\<lparr>sender = who, textContent = message\<rparr>],
       chatMessages := chatMessages s @ [length (nodes s)]\<rparr>"

text \<open>Assigning \<open>textContent\<close> of the message element \<open>b\<close>, wherever it is.\<close>

definition setTextContent :: "nat \<Rightarrow> jsstring \<Rightarrow> popup \<Rightarrow> popup" where
  "setTextContent b text s =
     (if b < length (nodes s)
      then s\<lparr>nodes := (nodes s)[b := (nodes s ! b)\<lparr>textContent := text\<rparr>]\<rparr>
      else s)"

text \<open>The \<open>finally\<close> block of \<^verbatim>\<open>sendChatMessage\<close>.\<close>

definition enableChatInput :: "popup \<Rightarrow> popup" where
  "enableChatInput s = s\<lparr>chatInputDisabled := False, sendChatBtnDisabled := False\<rparr>"

text \<open>
  \<^verbatim>\<open>sendChatMessage()\<close> up to its \<open>await\<close>. Without a current video the request cannot
  be built: the TypeError is caught, and the function ends at once.
\<close>

definition sendChatMessage :: "popup \<Rightarrow> popup" where
  "sendChatMessage s =
     (let message = trim (chatInput s)
      in if message = [] then s
         else
           (let s1 = (addChatMessage message User s)
                       \<lparr>chatInput := [], chatInputDisabled := True, sendChatBtnDisabled := True\<rparr>;
                botMessageDiv = length (nodes s1);
                s2 = s1\<lparr>nodes := nodes s1 @ [\<lparr>sender = Bot, textContent = []\<rparr>],
                        chatMessages := chatMessages s1 @ [botMessageDiv]\<rparr>
            in case currentVideo s2 of
                 None \<Rightarrow>
                   enableChatInput
                     (setTextContent botMessageDiv
                        (js ''Sorry, I encountered an error: '' @ nullVideoMessage) s2)
               | Some v \<Rightarrow>
                   s2\<lparr>requests := requests s2 @ [Chat (videoId v) (videoUrl v) message],
                      awaiting := awaiting s2 @ [AwaitChat botMessageDiv]\<rparr>))"

text \<open>The rest of \<^verbatim>\<open>sendChatMessage()\<close>, with the outcome of the call.\<close>

definition sendChatMessage_settled :: "nat \<Rightarrow> jsstring outcome \<Rightarrow> popup \<Rightarrow> popup" where
  "sendChatMessage_settled botMessageDiv r s =
     enableChatInput
       (case makeApiCall r of
          Inl message \<Rightarrow>
            setTextContent botMessageDiv (js ''Sorry, I encountered an error: '' @ message) s
        | Inr answer \<Rightarrow> setTextContent botMessageDiv answer s)"

text \<open>The messages of the chat container, in order.\<close>

definition transcript :: "popup \<Rightarrow> (sender \<times> jsstring) list" where
  "transcript s = map (\<lambda>i. (sender (nodes s ! i), textContent (nodes s ! i))) (chatMessages s)"

subsection \<open>Panels\<close>

fun panelDisplay :: "popup \<Rightarrow> panel \<Rightarrow> display" where
  "panelDisplay s QuizPanel = quizSection s"
| "panelDisplay s SummaryPanel = summarySection s"
| "panelDisplay s TopicsPanel = topicsSection s"
| "panelDisplay s ChatPanel = chatSection s"

definition visiblePanels :: "popup \<Rightarrow> panel list" where
  "visiblePanels s =
     filter (\<lambda>p. panelDisplay s p = Block) [QuizPanel, SummaryPanel, TopicsPanel, ChatPanel]"

section \<open>Events\<close>

text \<open>
  What can happen to the popup: the tab query of the start returns, the user clicks and
  types, a call to the backend settles, a timer fires, time passes.
\<close>

datatype event =
    TabQueried tabResult
  | ClickDifficulty jsstring
  | ClickGenerateQuiz
  | QuizSettled "quizQuestion list outcome"
  | ClickOption nat nat
  | ClickSubmitQuiz
  | VerifySettled "unit outcome"
  | ClickGenerateSummary
  | SummarySettled "jsstring outcome"
  | ClickExtractTopics
  | TopicsSettled "topicItem list outcome"
  | ClickStartChat
  | TypeChat jsstring
  | ClickSendChat
  | PressEnterChat
  | ChatSettled nat "jsstring outcome"
  | TimerFires nat
  | Tick nat

definition resume :: "pending \<Rightarrow> (popup \<Rightarrow> popup) \<Rightarrow> popup \<Rightarrow> popup option" where
  "resume p continue s =
     (if p \<in> set (awaiting s) then Some (continue (s\<lparr>awaiting := remove1 p (awaiting s)\<rparr>))
      else None)"

text \<open>
  The state after an event, or \<open>None\<close> where the event cannot happen: a call settles only
  if it waits, a timer fires only when it is due, and the browser sends no click to a
  disabled button or to an element without pointer events, and no key to a disabled input.
  The markup decides where the action buttons and the submit button are; they are taken to
  be clickable at any time, which leaves every behaviour of the popup in.
\<close>

fun fire :: "(jsstring \<Rightarrow> URL option) \<Rightarrow> event \<Rightarrow> popup \<Rightarrow> popup option" where
  "fire parse (TabQueried r) s = resume AwaitTab (loadVideoInfo parse r) s"
| "fire parse (ClickDifficulty d) s = Some (s\<lparr>selectedDifficulty := d\<rparr>)"
| "fire parse ClickGenerateQuiz s = Some (generateQuiz s)"
| "fire parse (QuizSettled r) s = resume AwaitQuiz (generateQuiz_settled r) s"
| "fire parse (ClickOption index optionIndex) s =
     (if index < length (quizContent s) \<and>
         optionIndex < length (options (quizContent s ! index)) \<and>
         optionPointerEvents (options (quizContent s ! index) ! optionIndex) = Auto
      then Some (selectOption index optionIndex s) else None)"
| "fire parse ClickSubmitQuiz s = Some (submitQuiz s)"
| "fire parse (VerifySettled r) s = resume AwaitVerify (submitQuiz_settled r) s"
| "fire parse ClickGenerateSummary s = Some (generateSummary s)"
| "fire parse (SummarySettled r) s = resume AwaitSummary (generateSummary_settled r) s"
| "fire parse ClickExtractTopics s = Some (extractTopics s)"
| "fire parse (TopicsSettled r) s = resume AwaitTopics (extractTopics_settled r) s"
| "fire parse ClickStartChat s = Some (startChat s)"
| "fire parse (TypeChat text) s =
     (if chatInputDisabled s then None else Some (s\<lparr>chatInput := text\<rparr>))"
| "fire parse ClickSendChat s =
     (if sendChatBtnDisabled s then None else Some (sendChatMessage s))"
| "fire parse PressEnterChat s =
     (if chatInputDisabled s then None else Some (sendChatMessage s))"
| "fire parse (ChatSettled b r) s = resume (AwaitChat b) (sendChatMessage_settled b r) s"
| "fire parse (TimerFires k) s =
     (if k < length (timers s) \<and> fst (timers s ! k) \<le> now s
      then Some (timerCallback (snd (timers s ! k))
                   (s\<lparr>timers := take k (timers s) @ drop (Suc k) (timers s)\<rparr>))
      else None)"
| "fire parse (Tick d) s = Some (s\<lparr>now := now s + d\<rparr>)"

fun run :: "(jsstring \<Rightarrow> URL option) \<Rightarrow> popup \<Rightarrow> event list \<Rightarrow> popup option" where
  "run parse s [] = Some s"
| "run parse s (e # es) = (case fire parse e s of None \<Rightarrow> None | Some s' \<Rightarrow> run parse s' es)"

text \<open>
  The popup when its script starts: the fields as the constructor sets them, the tab query
  under way, nothing sent, no timer. The document is as the markup has it.
\<close>

definition started :: "popup \<Rightarrow> bool" where
  "started s \<longleftrightarrow>
     currentVideo s = None \<and> selectedDifficulty s = js ''easy'' \<and> quizData s = None \<and>
     userAnswers s = [] \<and> awaiting s = [AwaitTab] \<and> requests s = [] \<and> timers s = []"

text \<open>The number of chat calls that wait for the backend.\<close>

fun isChat :: "pending \<Rightarrow> bool" where
  "isChat (AwaitChat b) = True"
| "isChat p = False"

definition chatPending :: "popup \<Rightarrow> nat" where
  "chatPending s = length (filter isChat (awaiting s))"

section \<open>Invariants\<close>

text \<open>The two notifications are not shown together.\<close>

definition exclusive :: "popup \<Rightarrow> bool" where
  "exclusive s \<longleftrightarrow> \<not> (errorDisplay s = Block \<and> successDisplay s = Block)"

text \<open>
  At most one chat call waits, and while one does, the input and the button of the chat
  are disabled and the input is empty.
\<close>

definition quiet :: "popup \<Rightarrow> bool" where
  "quiet s \<longleftrightarrow>
     chatPending s \<le> 1 \<and>
     (chatPending s = 1 \<longrightarrow> chatInputDisabled s \<and> sendChatBtnDisabled s \<and> chatInput s = [])"

text \<open>Two states with the same waiting chat calls and the same chat controls.\<close>

definition sameChat :: "popup \<Rightarrow> popup \<Rightarrow> bool" where
  "sameChat s s' \<longleftrightarrow>
     chatPending s' = chatPending s \<and> chatInputDisabled s' = chatInputDisabled s \<and>
     sendChatBtnDisabled s' = sendChatBtnDisabled s \<and> chatInput s' = chatInput s"

text \<open>
  The quiz of the questions \<open>qs\<close> is on display and not graded: an element for each
  question, an option for each of its answers, and no option marked.
\<close>

definition ungraded :: "quizQuestion list \<Rightarrow> popup \<Rightarrow> bool" where
  "ungraded qs s \<longleftrightarrow>
     quizData s = Some qs \<and> length (quizContent s) = length qs \<and>
     (\<forall>i<length qs.
        length (options (quizContent s ! i)) = length (answerOptions (qs ! i)) \<and>
        (\<forall>j<length (answerOptions (qs ! i)).
           \<not> correct (options (quizContent s ! i) ! j) \<and>
           \<not> incorrect (options (quizContent s ! i) ! j)))"

text \<open>
  A popup that has just started, over a document that shows nothing yet. The model is run
  from it on concrete inputs.
\<close>

definition blankPopup :: popup where
  "blankPopup =
     \<lparr>currentVideo = None, selectedDifficulty = js ''easy'', quizData = None, userAnswers = [],
      videoTitle = [], videoUrlText = [], actionBtnDisabled = False, loading = Hidden,
      controlsOpacity = ''1'', controlsPointerEvents = Auto,
      errorMessage = [], errorDisplay = Hidden, successMessage = [], successDisplay = Hidden,
      results = Hidden, quizSection = Hidden, summarySection = Hidden, topicsSection = Hidden,
      chatSection = Hidden, quizContent = [], submitQuizBtn = Block, summaryContent = [],
      topicsContent = [], chatInput = [], chatInputDisabled = False,
      sendChatBtnDisabled = False, chatMessages = [], nodes = [], now = 0, timers = [],
      requests = [], awaiting = [AwaitTab]\<rparr>"

text \<open>
  Inputs for the runs: the tab of a video, a quiz of one question whose second option is
  the correct one, the popup after the tab has been found, after this quiz has been
  displayed in it, and after a chat has been started and a first question answered.
\<close>

definition sampleTab :: tabResult where
  "sampleTab = Tab (js ''https://www.youtube.com/watch?v=abc'') (js ''Intro - YouTube'')"

definition sampleQuiz :: "quizQuestion list" where
  "sampleQuiz =
     [\<lparr>question = js ''Which one?'', answerOptions = [js ''a'', js ''b'', js ''c''],
       correct_answer = 1\<rparr>]"

definition watching :: popup where
  "watching = loadVideoInfo plainURL sampleTab (blankPopup\<lparr>awaiting := []\<rparr>)"

definition quizzing :: popup where
  "quizzing = generateQuiz_settled (Resolved sampleQuiz) watching"

definition chatEvents :: "event list" where
  "chatEvents =
     [TabQueried sampleTab, ClickStartChat, TypeChat (js ''hi''), ClickSendChat,
      ChatSettled 1 (Resolved (js ''hello'')), TypeChat (js '' why? '')]"

section \<open>Properties: timestamps\<close>

lemma toString_one_digit: "n < 10 \<Longrightarrow> toString n = [48 + n]"
  by (simp add: toString.simps)

lemma toString_two_digits:
  "10 \<le> n \<Longrightarrow> n < 100 \<Longrightarrow> toString n = [48 + n div 10, 48 + n mod 10]"
  by (subst toString.simps) (simp add: toString_one_digit less_mult_imp_div_less)

text \<open>The digits of \<open>toString\<close> are decimal digits, and they denote the number.\<close>

lemma toString_decimal:
  "foldl (\<lambda>a c. 10 * a + (c - 48)) 0 (toString n) = n \<and>
   (\<forall>c\<in>set (toString n). 48 \<le> c \<and> c \<le> 57)"
proof (induction n rule: toString.induct)
  case (1 n)
  show ?case
  proof (cases "n < 10")
    case True
    then show ?thesis by (simp add: toString.simps)
  next
    case False
    with 1 have IH: "foldl (\<lambda>a c. 10 * a + (c - 48)) 0 (toString (n div 10)) = n div 10"
      "\<forall>c\<in>set (toString (n div 10)). 48 \<le> c \<and> c \<le> 57" by auto
    have "toString n = toString (n div 10) @ [48 + n mod 10]"
      using False by (subst toString.simps) simp
    with IH show ?thesis by auto
  qed
qed

lemma padStart_seconds:
  assumes "r < 60"
  shows "padStart 2 48 (toString r) = [48 + r div 10, 48 + r mod 10]"
proof (cases "r < 10")
  case True
  then show ?thesis by (simp add: padStart_def toString_one_digit)
next
  case False
  with assms show ?thesis by (simp add: padStart_def toString_two_digits)
qed

text \<open>
  Claim C9. For a number of seconds \<open>s\<close> that is a non-negative integer (in the range
  where the numbers of the source are exact), \<open>formatTimestamp\<close> gives the decimal digits
  of \<open>s div 60\<close>, a colon, and the two decimal digits of \<open>s mod 60\<close>, tens first; and
  125, 59 and 0 are formatted as \<open>2:05\<close>, \<open>0:59\<close> and \<open>0:00\<close>.
\<close>

theorem formatTimestamp_minutes_seconds:
  "s < 2 ^ 53 \<Longrightarrow>
   formatTimestamp s =
     toString (s div 60) @ js '':'' @ [48 + (s mod 60) div 10, 48 + (s mod 60) mod 10] \<and>
   formatTimestamp 125 = js ''2:05'' \<and>
   formatTimestamp 59 = js ''0:59'' \<and>
   formatTimestamp 0 = js ''0:00''"
  by (simp add: formatTimestamp_def padStart_seconds Let_def) (simp add: js_def toString.simps)

theorem formatTimestamp_minutes_seconds_witness:
  "(3725::nat) < 2 ^ 53 \<and> formatTimestamp 3725 = js ''62:05''"
  using formatTimestamp_minutes_seconds [of 3725]
  by (simp add: js_def toString.simps)

section \<open>Properties: the title\<close>

lemma not_isWhiteSpace_hyphen: "\<not> isWhiteSpace 45"
  by (simp add: isWhiteSpace_def)

lemma not_isWhiteSpace_Y: "\<not> isWhiteSpace 89"
  by (simp add: isWhiteSpace_def)

lemma js_YouTube: "js ''YouTube'' = [89, 111, 117, 84, 117, 98, 101]"
  by (simp add: js_def)

lemma dropWhile_run: "list_all P ws \<Longrightarrow> \<not> P x \<Longrightarrow> dropWhile P (ws @ x # r) = x # r"
  by (induction ws) auto

text \<open>
  The matcher accepts exactly the strings of the expression: white space, a hyphen, white
  space, and the word \<open>YouTube\<close> in this spelling.
\<close>

lemma matchSuffixAt_iff:
  "matchSuffixAt s \<longleftrightarrow>
     (\<exists>ws1 ws2. s = ws1 @ [45] @ ws2 @ js ''YouTube'' \<and>
        list_all isWhiteSpace ws1 \<and> list_all isWhiteSpace ws2)"
proof
  assume m: "matchSuffixAt s"
  then obtain r where r: "dropWhile isWhiteSpace s = 45 # r"
    and y: "dropWhile isWhiteSpace r = js ''YouTube''"
    by (auto simp: matchSuffixAt_def split: list.splits)
  have "s = takeWhile isWhiteSpace s @ [45] @ takeWhile isWhiteSpace r @ js ''YouTube''"
    using r y takeWhile_dropWhile_id [of isWhiteSpace s] takeWhile_dropWhile_id [of isWhiteSpace r]
    by simp
  moreover have "list_all isWhiteSpace (takeWhile isWhiteSpace s)"
    "list_all isWhiteSpace (takeWhile isWhiteSpace r)"
    by (auto simp: list_all_iff dest: set_takeWhileD)
  ultimately show "\<exists>ws1 ws2. s = ws1 @ [45] @ ws2 @ js ''YouTube'' \<and>
        list_all isWhiteSpace ws1 \<and> list_all isWhiteSpace ws2" by blast
next
  assume "\<exists>ws1 ws2. s = ws1 @ [45] @ ws2 @ js ''YouTube'' \<and>
        list_all isWhiteSpace ws1 \<and> list_all isWhiteSpace ws2"
  then obtain ws1 ws2 where s: "s = ws1 @ 45 # ws2 @ 89 # [111, 117, 84, 117, 98, 101]"
    and w: "list_all isWhiteSpace ws1" "list_all isWhiteSpace ws2"
    by (auto simp: js_YouTube)
  show "matchSuffixAt s"
    unfolding matchSuffixAt_def s
    by (simp add: dropWhile_run [OF w(1) not_isWhiteSpace_hyphen]
        dropWhile_run [OF w(2) not_isWhiteSpace_Y] js_YouTube)
qed

lemma cleanTitle_unchanged: "\<not> hasSuffix t \<Longrightarrow> cleanTitle t = t"
  by (induction t) auto

lemma cleanTitle_split: "hasSuffix t \<Longrightarrow> \<exists>m. t = cleanTitle t @ m \<and> matchSuffixAt m"
  by (induction t) auto

lemma matchSuffixAt_nonempty: "matchSuffixAt m \<Longrightarrow> m \<noteq> []"
  by (auto simp: matchSuffixAt_def)

lemma cleanTitle_shorter:
  assumes "hasSuffix t"
  shows "length (cleanTitle t) < length t"
proof -
  from assms obtain m where "t = cleanTitle t @ m" "matchSuffixAt m"
    using cleanTitle_split by blast
  then have "length t = length (cleanTitle t) + length m" "m \<noteq> []"
    by (metis length_append, simp add: matchSuffixAt_nonempty)
  then show ?thesis by simp
qed

lemmas title_eval = js_def matchSuffixAt_def isWhiteSpace_def

text \<open>
  Claim C3, as the code has it. Cleaning the title removes one match of the expression
  (white space, a hyphen, white space, \<open>YouTube\<close> in this spelling) at the end of the
  title, once, and leaves a title without such an end as it is. Cleaning twice gives the
  same as cleaning once exactly when the title cleaned once does not end in a match again.
\<close>

theorem cleanTitle_once:
  "(\<not> hasSuffix t \<longrightarrow> cleanTitle t = t) \<and>
   (hasSuffix t \<longrightarrow>
      (\<exists>ws1 ws2. t = cleanTitle t @ ws1 @ [45] @ ws2 @ js ''YouTube'' \<and>
         list_all isWhiteSpace ws1 \<and> list_all isWhiteSpace ws2)) \<and>
   (cleanTitle (cleanTitle t) = cleanTitle t \<longleftrightarrow> \<not> hasSuffix (cleanTitle t))"
proof (intro conjI impI)
  assume "\<not> hasSuffix t"
  then show "cleanTitle t = t" by (rule cleanTitle_unchanged)
next
  assume "hasSuffix t"
  then obtain m where "t = cleanTitle t @ m" "matchSuffixAt m"
    using cleanTitle_split by blast
  then show "\<exists>ws1 ws2. t = cleanTitle t @ ws1 @ [45] @ ws2 @ js ''YouTube'' \<and>
         list_all isWhiteSpace ws1 \<and> list_all isWhiteSpace ws2"
    unfolding matchSuffixAt_iff by metis
next
  show "cleanTitle (cleanTitle t) = cleanTitle t \<longleftrightarrow> \<not> hasSuffix (cleanTitle t)"
    using cleanTitle_unchanged [of "cleanTitle t"] cleanTitle_shorter [of "cleanTitle t"]
    by auto
qed

theorem cleanTitle_once_witness:
  "hasSuffix (js ''Intro - YouTube'') \<and> \<not> hasSuffix (js ''Intro - youtube'') \<and>
   cleanTitle (js ''Intro - YouTube'') = js ''Intro'' \<and>
   cleanTitle (js ''Intro - youtube'') = js ''Intro - youtube'' \<and>
   cleanTitle (cleanTitle (js ''Intro - YouTube'')) = cleanTitle (js ''Intro - YouTube'')"
  using cleanTitle_once [of "js ''Intro - YouTube''"] cleanTitle_once [of "js ''Intro - youtube''"]
  by (simp add: title_eval)

text \<open>
  Claim C3 as it is stated fails: a title that ends in the suffix twice loses one suffix
  with each cleaning, in the popup and, with the trimming, in the content script.
\<close>

theorem cleanTitle_not_idempotent:
  "cleanTitle (cleanTitle (js ''A - YouTube - YouTube'')) \<noteq>
     cleanTitle (js ''A - YouTube - YouTube'') \<and>
   cleanPageTitle (cleanPageTitle (js ''A - YouTube - YouTube'')) \<noteq>
     cleanPageTitle (js ''A - YouTube - YouTube'')"
  by (simp add: title_eval cleanPageTitle_def trim_def)

section \<open>Properties: the address\<close>

lemma searchParams_has_iff: "searchParams_has ps n \<longleftrightarrow> (\<exists>x. (n, x) \<in> set ps)"
  by (force simp: searchParams_has_def map_of_eq_None_iff image_iff)

lemmas url_eval = plainURL_def js_def isLower_def isPlain_def parseQuery_def
  searchParams_has_def searchParams_get_def isYouTubeVideoPage_def isValidYouTubeVideoPage_def
  extractVideoInfo_def

text \<open>
  Claim C2. With a constructor that rejects the empty string, as the browser's does, an
  address is classified as a video page if and only if it parses, its host name is
  \<open>www.youtube.com\<close>, its path is \<open>/watch\<close> and its query has a parameter \<open>v\<close>; this
  holds for the check of the popup and for the one of the content script.
\<close>

theorem video_page_iff:
  assumes "parse [] = None"
  shows "(isYouTubeVideoPage parse u \<longleftrightarrow>
            (\<exists>U. parse u = Some U \<and> hostname U = js ''www.youtube.com'' \<and>
                 pathname U = js ''/watch'' \<and> (\<exists>x. (js ''v'', x) \<in> set (searchParams U)))) \<and>
         (isValidYouTubeVideoPage parse u \<longleftrightarrow>
            (\<exists>U. parse u = Some U \<and> hostname U = js ''www.youtube.com'' \<and>
                 pathname U = js ''/watch'' \<and> (\<exists>x. (js ''v'', x) \<in> set (searchParams U))))"
  using assms
  by (auto simp: isYouTubeVideoPage_def isValidYouTubeVideoPage_def searchParams_has_iff
      split: option.splits)

theorem video_page_iff_witness:
  "plainURL [] = None \<and>
   isYouTubeVideoPage plainURL (js ''https://www.youtube.com/watch?v=abc'') \<and>
   isValidYouTubeVideoPage plainURL (js ''https://www.youtube.com/watch?v=abc'') \<and>
   (\<exists>U. plainURL (js ''https://www.youtube.com/watch?v=abc'') = Some U \<and>
        hostname U = js ''www.youtube.com'' \<and> pathname U = js ''/watch'' \<and>
        (\<exists>x. (js ''v'', x) \<in> set (searchParams U)))"
  using video_page_iff [of plainURL "js ''https://www.youtube.com/watch?v=abc''"]
  by (simp add: url_eval)

text \<open>
  Claim C10, as the code has it. When the check of the page has passed, the parameter
  \<open>v\<close> has a first value; \<open>extractVideoInfo\<close> returns the video (with this value, the
  address and the cleaned title) when the value is not empty, and \<open>null\<close> when it is.
\<close>

theorem extractVideoInfo_after_check:
  assumes "isYouTubeVideoPage parse u"
  shows "\<exists>U vid. parse u = Some U \<and> searchParams_get (searchParams U) (js ''v'') = Some vid \<and>
           extractVideoInfo parse u t =
             (if vid = [] then None
              else Some \<lparr>videoId = vid, videoUrl = u, title = cleanTitle t, fullUrl = u\<rparr>)"
  using assms
  by (auto simp: isYouTubeVideoPage_def extractVideoInfo_def searchParams_has_def
      searchParams_get_def split: if_splits option.splits)

theorem extractVideoInfo_after_check_witness:
  "isYouTubeVideoPage plainURL (js ''https://www.youtube.com/watch?v=abc'') \<and>
   extractVideoInfo plainURL (js ''https://www.youtube.com/watch?v=abc'') (js ''Intro - YouTube'') =
     Some \<lparr>videoId = js ''abc'', videoUrl = js ''https://www.youtube.com/watch?v=abc'',
           title = js ''Intro'', fullUrl = js ''https://www.youtube.com/watch?v=abc''\<rparr>"
  using extractVideoInfo_after_check
    [of plainURL "js ''https://www.youtube.com/watch?v=abc''" "js ''Intro - YouTube''"]
  by (simp add: url_eval title_eval)

text \<open>
  Claim C10 as it is stated fails: an address with an empty \<open>v\<close> passes the check, the
  extraction returns \<open>null\<close>, and \<open>loadVideoInfo\<close> reports that it is unable to extract
  the video information.
\<close>

theorem extractVideoInfo_null_after_check:
  "isYouTubeVideoPage plainURL (js ''https://www.youtube.com/watch?v='') \<and>
   extractVideoInfo plainURL (js ''https://www.youtube.com/watch?v='') (js ''Intro - YouTube'') = None \<and>
   errorMessage (loadVideoInfo plainURL
       (Tab (js ''https://www.youtube.com/watch?v='') (js ''Intro - YouTube'')) blankPopup) =
     js ''Unable to extract video information'' \<and>
   currentVideo (loadVideoInfo plainURL
       (Tab (js ''https://www.youtube.com/watch?v='') (js ''Intro - YouTube'')) blankPopup) = None"
  by (simp add: url_eval showError_def blankPopup_def)

lemmas popup_eval = blankPopup_def sampleTab_def sampleQuiz_def watching_def quizzing_def
  chatEvents_def resume_def showError_def showSuccess_def showLoading_def disableControls_def
  updateVideoInfo_def generateQuiz_settled_def displayQuiz_def freshQuestion_def
  freshOption_def selectOption_def submitQuiz_def submitQuiz_settled_def
  displayQuizResults_def gradeQuestion_def gradeOption_def startChat_def sendChatMessage_def
  sendChatMessage_settled_def addChatMessage_def setTextContent_def enableChatInput_def
  trim_def transcript_def visiblePanels_def chatPending_def started_def toString.simps
  enumerate_eq_zip Let_def

section \<open>Properties: notifications\<close>

lemma exclusive_showError [simp]: "exclusive (showError m s)"
  by (simp add: exclusive_def showError_def)

lemma exclusive_showSuccess [simp]: "exclusive (showSuccess m s)"
  by (simp add: exclusive_def showSuccess_def)

lemma exclusive_showLoading [simp]: "exclusive (showLoading b s) = exclusive s"
  by (simp add: exclusive_def showLoading_def)

lemma exclusive_timerCallback: "exclusive s \<Longrightarrow> exclusive (timerCallback k s)"
  by (cases k) (auto simp: exclusive_def)

lemma exclusive_updates [simp]:
  "exclusive (s\<lparr>awaiting := a\<rparr>) = exclusive s"
  "exclusive (s\<lparr>requests := r\<rparr>) = exclusive s"
  "exclusive (s\<lparr>timers := t\<rparr>) = exclusive s"
  "exclusive (s\<lparr>now := n\<rparr>) = exclusive s"
  "exclusive (s\<lparr>chatInput := c\<rparr>) = exclusive s"
  "exclusive (s\<lparr>selectedDifficulty := d\<rparr>) = exclusive s"
  by (simp_all add: exclusive_def)

lemma exclusive_loadVideoInfo: "exclusive (loadVideoInfo parse r s)"
  by (cases r) (auto simp: disableControls_def exclusive_def showError_def showSuccess_def
      split: option.splits)

lemma exclusive_generateQuiz: "exclusive s \<Longrightarrow> exclusive (generateQuiz s)"
  by (auto simp: generateQuiz_def split: option.splits)

lemma exclusive_generateQuiz_settled: "exclusive (generateQuiz_settled r s)"
  by (auto simp: generateQuiz_settled_def split: sum.splits)

lemma exclusive_selectOption: "exclusive s \<Longrightarrow> exclusive (selectOption i j s)"
  by (auto simp: selectOption_def exclusive_def Let_def)

lemma exclusive_submitQuiz: "exclusive s \<Longrightarrow> exclusive (submitQuiz s)"
  by (auto simp: submitQuiz_def split: option.splits)

lemma exclusive_submitQuiz_settled: "exclusive (submitQuiz_settled r s)"
  by (auto simp: submitQuiz_settled_def Let_def split: sum.splits option.splits)

lemma exclusive_generateSummary: "exclusive s \<Longrightarrow> exclusive (generateSummary s)"
  by (auto simp: generateSummary_def split: option.splits)

lemma exclusive_generateSummary_settled: "exclusive (generateSummary_settled r s)"
  by (auto simp: generateSummary_settled_def split: sum.splits)

lemma exclusive_extractTopics: "exclusive s \<Longrightarrow> exclusive (extractTopics s)"
  by (auto simp: extractTopics_def split: option.splits)

lemma exclusive_extractTopics_settled: "exclusive (extractTopics_settled r s)"
  by (auto simp: extractTopics_settled_def split: sum.splits)

lemma exclusive_startChat: "exclusive s \<Longrightarrow> exclusive (startChat s)"
  by (auto simp: startChat_def split: option.splits)

lemma exclusive_setTextContent [simp]: "exclusive (setTextContent b t s) = exclusive s"
  by (simp add: setTextContent_def exclusive_def)

lemma exclusive_enableChatInput [simp]: "exclusive (enableChatInput s) = exclusive s"
  by (simp add: enableChatInput_def exclusive_def)

lemma exclusive_sendChatMessage: "exclusive s \<Longrightarrow> exclusive (sendChatMessage s)"
  by (auto simp: sendChatMessage_def Let_def addChatMessage_def exclusive_def
      setTextContent_def enableChatInput_def split: option.splits)

lemma exclusive_sendChatMessage_settled:
  "exclusive s \<Longrightarrow> exclusive (sendChatMessage_settled b r s)"
  by (auto simp: sendChatMessage_settled_def split: sum.splits)

lemmas exclusive_steps =
  exclusive_loadVideoInfo exclusive_generateQuiz exclusive_generateQuiz_settled
  exclusive_selectOption exclusive_submitQuiz exclusive_submitQuiz_settled
  exclusive_generateSummary exclusive_generateSummary_settled exclusive_extractTopics
  exclusive_extractTopics_settled exclusive_startChat exclusive_sendChatMessage
  exclusive_sendChatMessage_settled exclusive_timerCallback

lemma exclusive_fire: "exclusive s \<Longrightarrow> fire parse e s = Some s' \<Longrightarrow> exclusive s'"
  by (cases e) (auto simp: resume_def exclusive_steps split: if_splits)

lemma exclusive_run: "exclusive s \<Longrightarrow> run parse s evs = Some s' \<Longrightarrow> exclusive s'"
proof (induction evs arbitrary: s)
  case Nil
  then show ?case by simp
next
  case (Cons e evs)
  then show ?case by (auto split: option.splits dest: exclusive_fire)
qed



text \<open>
  Claim C7. In every state that the popup reaches, between any two events, the error
  notification and the success notification are not both shown, provided the markup does
  not show both at the start. Showing one kind hides the other in the same step and sets
  a timer (5000 ms for an error, 3000 ms for a success), and a timer that fires shows
  nothing: it can only hide.
\<close>

theorem notifications_exclusive:
  assumes "run parse s0 evs = Some s"
    and "\<not> (errorDisplay s0 = Block \<and> successDisplay s0 = Block)"
  shows "\<not> (errorDisplay s = Block \<and> successDisplay s = Block) \<and>
         errorDisplay (showError m s) = Block \<and> successDisplay (showError m s) = Hidden \<and>
         timers (showError m s) = timers s @ [(now s + 5000, ErrorKind)] \<and>
         successDisplay (showSuccess m s) = Block \<and> errorDisplay (showSuccess m s) = Hidden \<and>
         timers (showSuccess m s) = timers s @ [(now s + 3000, SuccessKind)] \<and>
         (\<forall>k s'. fire parse (TimerFires k) s = Some s' \<longrightarrow>
            (errorDisplay s' = Block \<longrightarrow> errorDisplay s = Block) \<and>
            (successDisplay s' = Block \<longrightarrow> successDisplay s = Block))"
proof -
  have "exclusive s"
    using assms exclusive_run [of s0 parse evs s] by (simp add: exclusive_def)
  moreover have "\<forall>k s'. fire parse (TimerFires k) s = Some s' \<longrightarrow>
            (errorDisplay s' = Block \<longrightarrow> errorDisplay s = Block) \<and>
            (successDisplay s' = Block \<longrightarrow> successDisplay s = Block)"
  proof (intro allI impI)
    fix k s'
    assume f: "fire parse (TimerFires k) s = Some s'"
    show "(errorDisplay s' = Block \<longrightarrow> errorDisplay s = Block) \<and>
            (successDisplay s' = Block \<longrightarrow> successDisplay s = Block)"
      using f by (cases "snd (timers s ! k)") (auto split: if_splits)
  qed
  ultimately show ?thesis
    by (simp add: exclusive_def showError_def showSuccess_def)
qed


theorem notifications_exclusive_witness:
  "run plainURL blankPopup (chatEvents @ [ClickSubmitQuiz, Tick 3500, TimerFires 0]) \<noteq> None \<and>
   \<not> (errorDisplay blankPopup = Block \<and> successDisplay blankPopup = Block) \<and>
   errorDisplay (the (run plainURL blankPopup (chatEvents @ [ClickSubmitQuiz, Tick 3500, TimerFires 0]))) = Block \<and>
   successDisplay (the (run plainURL blankPopup (chatEvents @ [ClickSubmitQuiz, Tick 3500, TimerFires 0]))) = Hidden"
proof -
  let ?evs = "chatEvents @ [ClickSubmitQuiz, Tick 3500, TimerFires 0]"
  obtain s where r: "run plainURL blankPopup ?evs = Some s"
    and e: "errorDisplay s = Block"
    by (simp add: popup_eval url_eval title_eval)
  have h: "\<not> (errorDisplay blankPopup = Block \<and> successDisplay blankPopup = Block)"
    by (simp add: blankPopup_def)
  have "successDisplay s = Hidden"
    using notifications_exclusive [OF r h] e by (cases "successDisplay s") simp_all
  with r e h show ?thesis by simp
qed

section \<open>Properties: panels\<close>

text \<open>
  Claim C6. After a quiz, a summary or the topics have been generated with success, and
  after a chat has been started for a current video, the section of the action is the only
  one of the four that is shown, and the results container is shown.
\<close>

theorem panel_shown:
  "visiblePanels (generateQuiz_settled (Resolved qs) s) = [QuizPanel] \<and>
   results (generateQuiz_settled (Resolved qs) s) = Block \<and>
   visiblePanels (generateSummary_settled (Resolved summary) s) = [SummaryPanel] \<and>
   results (generateSummary_settled (Resolved summary) s) = Block \<and>
   visiblePanels (extractTopics_settled (Resolved topics) s) = [TopicsPanel] \<and>
   results (extractTopics_settled (Resolved topics) s) = Block \<and>
   (currentVideo s \<noteq> None \<longrightarrow>
      visiblePanels (startChat s) = [ChatPanel] \<and> results (startChat s) = Block)"
  by (auto simp: visiblePanels_def generateQuiz_settled_def generateSummary_settled_def
      extractTopics_settled_def startChat_def displayQuiz_def displaySummary_def
      displayTopics_def showSuccess_def showLoading_def split: option.splits)


theorem panel_shown_witness:
  "currentVideo watching \<noteq> None \<and> visiblePanels (startChat watching) = [ChatPanel] \<and>
   results (startChat watching) = Block \<and>
   visiblePanels (generateQuiz_settled (Resolved sampleQuiz) (startChat watching)) = [QuizPanel]"
proof -
  have "currentVideo watching \<noteq> None"
    by (simp add: popup_eval url_eval)
  then show ?thesis
    using panel_shown [of sampleQuiz watching] panel_shown [of sampleQuiz "startChat watching"]
    by simp
qed

section \<open>Properties: the quiz\<close>

text \<open>
  Claim C8. Submitting while no answer is stored only shows the error notification: no
  request is sent, no call waits, and apart from the notification and its timer the state
  stays as it was.
\<close>

theorem submitQuiz_no_answers:
  assumes "userAnswers s = []"
  shows "submitQuiz s =
           s\<lparr>errorMessage := js ''Please answer at least one question before submitting'',
             errorDisplay := Block, successDisplay := Hidden,
             timers := timers s @ [(now s + 5000, ErrorKind)]\<rparr> \<and>
         requests (submitQuiz s) = requests s \<and>
         awaiting (submitQuiz s) = awaiting s \<and>
         fire parse ClickSubmitQuiz s = Some (submitQuiz s)"
  using assms by (simp add: submitQuiz_def showError_def)



theorem submitQuiz_no_answers_witness:
  "userAnswers quizzing = [] \<and> quizData quizzing = Some sampleQuiz \<and>
   requests (submitQuiz quizzing) = requests quizzing \<and>
   errorDisplay (submitQuiz quizzing) = Block \<and>
   errorMessage (submitQuiz quizzing) = js ''Please answer at least one question before submitting''"
proof -
  have h: "userAnswers quizzing = []" "quizData quizzing = Some sampleQuiz"
    by (simp_all add: quizzing_def generateQuiz_settled_def displayQuiz_def showSuccess_def
        showLoading_def)
  have "errorDisplay (submitQuiz quizzing) = Block \<and>
        errorMessage (submitQuiz quizzing) = js ''Please answer at least one question before submitting''"
    by (subst (1 2) conjunct1 [OF submitQuiz_no_answers [OF h(1), of plainURL]]) simp
  with h submitQuiz_no_answers [OF h(1), of plainURL] show ?thesis by simp
qed

text \<open>A click on an option stores it as the answer of its question, whatever was stored.\<close>

lemma selectOption_stored:
  "map_of (userAnswers (selectOption i j s)) i =
     (if i < length (quizContent s) \<and> j < length (options (quizContent s ! i)) then Some j
      else map_of (userAnswers s) i)"
  by (simp add: selectOption_def Let_def update_conv')

lemma ungraded_displayed: "ungraded qs (generateQuiz_settled (Resolved qs) s0)"
  by (simp add: ungraded_def generateQuiz_settled_def displayQuiz_def showSuccess_def
      showLoading_def nth_enumerate_eq freshQuestion_def freshOption_def)

lemma ungraded_selectOption:
  assumes "ungraded qs s"
  shows "ungraded qs (selectOption i j s)"
proof (cases "i < length (quizContent s) \<and> j < length (options (quizContent s ! i))")
  case False
  with assms show ?thesis by (auto simp: selectOption_def)
next
  case True
  with assms show ?thesis
    by (auto simp: ungraded_def selectOption_def Let_def nth_list_update)
qed

lemma ungraded_clicks:
  assumes "\<forall>e\<in>set clicks. \<exists>i j. e = ClickOption i j"
    and "run parse s clicks = Some s'" and "ungraded qs s"
  shows "ungraded qs s'"
  using assms
proof (induction clicks arbitrary: s)
  case Nil
  then show ?case by simp
next
  case (Cons e clicks)
  from Cons.prems(1) obtain i j where e: "e = ClickOption i j" by auto
  with Cons.prems(2) have r: "run parse (selectOption i j s) clicks = Some s'"
    by (auto split: if_splits)
  show ?case
    using Cons.IH [OF _ r ungraded_selectOption [OF Cons.prems(3)]] Cons.prems(1) by simp
qed

lemma gradeFrom_all:
  assumes "k + length ds = length qs"
  shows "snd (gradeFrom qs ua k ds) \<and> length (fst (gradeFrom qs ua k ds)) = length ds \<and>
         (\<forall>i<length ds. fst (gradeFrom qs ua k ds) ! i =
            gradeQuestion (correct_answer (qs ! (k + i))) (map_of ua (k + i)) (ds ! i))"
  using assms
proof (induction ds arbitrary: k)
  case Nil
  then show ?case by simp
next
  case (Cons d ds)
  then have k: "k < length qs" and rest: "Suc k + length ds = length qs" by auto
  note IH = Cons.IH [OF rest]
  show ?case
  proof (intro conjI allI impI)
    show "snd (gradeFrom qs ua k (d # ds))" using k IH by (simp add: Let_def)
    show "length (fst (gradeFrom qs ua k (d # ds))) = length (d # ds)"
      using k IH by (simp add: Let_def)
    fix i assume "i < length (d # ds)"
    then show "fst (gradeFrom qs ua k (d # ds)) ! i =
            gradeQuestion (correct_answer (qs ! (k + i))) (map_of ua (k + i)) ((d # ds) ! i)"
      using k IH by (cases i) (simp_all add: Let_def)
  qed
qed

lemma gradeQuestion_option:
  "j < length (options q) \<Longrightarrow>
   options (gradeQuestion c u q) ! j = gradeOption c u (j, options q ! j)"
  by (simp add: gradeQuestion_def nth_enumerate_eq)


text \<open>
  Claim C1. After a quiz has been displayed, options have been clicked and the submit call
  has succeeded, the option \<open>j\<close> of question \<open>i\<close> is marked correct exactly when \<open>j\<close>
  is the question's correct answer, and marked incorrect exactly when \<open>j\<close> is the stored
  answer of the user and differs from the correct answer; every other option has neither
  mark.
\<close>

theorem grading_marks:
  assumes "\<forall>e\<in>set clicks. \<exists>i j. e = ClickOption i j"
    and "run parse (generateQuiz_settled (Resolved qs) s0) clicks = Some s"
    and "i < length qs" and "j < length (answerOptions (qs ! i))"
  shows "let g = submitQuiz_settled (Resolved ()) s;
             opt = options (quizContent g ! i) ! j;
             c = correct_answer (qs ! i);
             u = map_of (userAnswers s) i
         in (correct opt \<longleftrightarrow> int j = c) \<and>
            (incorrect opt \<longleftrightarrow> u = Some j \<and> int j \<noteq> c) \<and>
            successMessage g = js ''Quiz submitted successfully!''"
proof -
  have u: "ungraded qs s"
    using ungraded_clicks [OF assms(1,2) ungraded_displayed] .
  then have len: "0 + length (quizContent s) = length qs" and qd: "quizData s = Some qs"
    by (simp_all add: ungraded_def)
  note g = gradeFrom_all [OF len, of "userAnswers s"]
  have ok: "snd (displayQuizResults s) = None"
    and qc: "quizContent (fst (displayQuizResults s)) = fst (gradeFrom qs (userAnswers s) 0 (quizContent s))"
    using g by (simp_all add: displayQuizResults_def qd Let_def)
  have sub: "quizContent (submitQuiz_settled (Resolved ()) s) =
               fst (gradeFrom qs (userAnswers s) 0 (quizContent s))"
    "successMessage (submitQuiz_settled (Resolved ()) s) = js ''Quiz submitted successfully!''"
    using ok qc by (simp_all add: submitQuiz_settled_def Let_def showSuccess_def showLoading_def)
  have i: "i < length (quizContent s)" using u assms(3) by (simp add: ungraded_def)
  have j: "j < length (options (quizContent s ! i))"
    and clean: "\<not> correct (options (quizContent s ! i) ! j)" "\<not> incorrect (options (quizContent s ! i) ! j)"
    using u assms(3,4) by (simp_all add: ungraded_def)
  have "options (quizContent (submitQuiz_settled (Resolved ()) s) ! i) ! j =
          gradeOption (correct_answer (qs ! i)) (map_of (userAnswers s) i)
            (j, options (quizContent s ! i) ! j)"
    using g i j by (simp add: sub gradeQuestion_option)
  then show ?thesis
    using clean sub(2) by (auto simp: Let_def gradeOption_def)
qed

theorem grading_marks_witness:
  "run plainURL quizzing [ClickOption 0 2, ClickOption 0 0] \<noteq> None \<and>
   map_of (userAnswers (the (run plainURL quizzing [ClickOption 0 2, ClickOption 0 0]))) 0 = Some 0 \<and>
   incorrect (options (quizContent (submitQuiz_settled (Resolved ())
       (the (run plainURL quizzing [ClickOption 0 2, ClickOption 0 0]))) ! 0) ! 0) \<and>
   correct (options (quizContent (submitQuiz_settled (Resolved ())
       (the (run plainURL quizzing [ClickOption 0 2, ClickOption 0 0]))) ! 0) ! 1) \<and>
   \<not> correct (options (quizContent (submitQuiz_settled (Resolved ())
       (the (run plainURL quizzing [ClickOption 0 2, ClickOption 0 0]))) ! 0) ! 2) \<and>
   \<not> incorrect (options (quizContent (submitQuiz_settled (Resolved ())
       (the (run plainURL quizzing [ClickOption 0 2, ClickOption 0 0]))) ! 0) ! 2)"
proof -
  let ?clicks = "[ClickOption 0 2, ClickOption 0 0]"
  obtain s where r: "run plainURL quizzing ?clicks = Some s"
    and u: "map_of (userAnswers s) 0 = Some 0"
    by (simp add: popup_eval url_eval title_eval)
  have c: "\<forall>e\<in>set ?clicks. \<exists>i j. e = ClickOption i j" by simp
  have r': "run plainURL (generateQuiz_settled (Resolved sampleQuiz) watching) ?clicks = Some s"
    using r by (simp only: quizzing_def)
  have q: "(0::nat) < length sampleQuiz" "correct_answer (sampleQuiz ! 0) = 1"
    "(0::nat) < length (answerOptions (sampleQuiz ! 0))"
    "(1::nat) < length (answerOptions (sampleQuiz ! 0))"
    "(2::nat) < length (answerOptions (sampleQuiz ! 0))"
    by (simp_all add: sampleQuiz_def)
  show ?thesis
    using grading_marks [OF c r' q(1) q(3)] grading_marks [OF c r' q(1) q(4)]
      grading_marks [OF c r' q(1) q(5)] r u q(2)
    by (simp add: Let_def)
qed

section \<open>Properties: the chat\<close>

lemma transcript_cong:
  assumes "chatMessages s' = chatMessages s"
    and "\<And>i. i \<in> set (chatMessages s) \<Longrightarrow> nodes s' ! i = nodes s ! i"
  shows "transcript s' = transcript s"
  using assms by (simp add: transcript_def)

lemma sendChatMessage_begin:
  assumes "trim (chatInput s) = t" "t \<noteq> []" "currentVideo s = Some v"
  shows "sendChatMessage s =
           s\<lparr>nodes := nodes s @ [\<lparr>sender = User, textContent = t\<rparr>, \<lparr>sender = Bot, textContent = []\<rparr>],
             chatMessages := chatMessages s @ [length (nodes s), Suc (length (nodes s))],
             chatInput := [], chatInputDisabled := True, sendChatBtnDisabled := True,
             requests := requests s @ [Chat (videoId v) (videoUrl v) t],
             awaiting := awaiting s @ [AwaitChat (Suc (length (nodes s)))]\<rparr>"
  using assms by (simp add: sendChatMessage_def addChatMessage_def Let_def)

lemma transcript_append:
  assumes "\<forall>i\<in>set (chatMessages s). i < length (nodes s)"
  shows "transcript (s\<lparr>nodes := nodes s @ [\<lparr>sender = User, textContent = t\<rparr>, \<lparr>sender = Bot, textContent = x\<rparr>],
             chatMessages := chatMessages s @ [length (nodes s), Suc (length (nodes s))]\<rparr>) =
         transcript s @ [(User, t), (Bot, x)]"
  using assms by (simp add: transcript_def nth_append)

lemma update_last_of_two: "(xs @ [u, y])[Suc (length xs) := z] = xs @ [u, z]"
  by (simp add: list_update_append)

lemma nth_last_of_two: "(xs @ [u, y]) ! Suc (length xs) = y"
  by (simp add: nth_append)


text \<open>
  Claim C4. Sending a text that is not empty after trimming, for a current video, appends
  the user's message with the text and, right after it, an empty message of the bot, and
  sends one chat request. When the call resolves with an answer, the children of the
  chat container are the same elements at the same places, and the transcript is the former
  one followed by the user's message and the bot's message with the answer.
\<close>

theorem chat_exchange:
  assumes "trim (chatInput s) = t" and "t \<noteq> []" and "currentVideo s = Some v"
    and "\<forall>i\<in>set (chatMessages s). i < length (nodes s)"
  shows "let s1 = sendChatMessage s; b = Suc (length (nodes s)); n = length (transcript s) in
           requests s1 = requests s @ [Chat (videoId v) (videoUrl v) t] \<and>
           awaiting s1 = awaiting s @ [AwaitChat b] \<and>
           chatMessages s1 = chatMessages s @ [length (nodes s), b] \<and>
           transcript s1 = transcript s @ [(User, t), (Bot, [])] \<and>
           (\<exists>s2. fire parse (ChatSettled b (Resolved a)) s1 = Some s2 \<and>
                 chatMessages s2 = chatMessages s1 \<and>
                 transcript s2 = transcript s @ [(User, t), (Bot, a)] \<and>
                 transcript s2 ! n = (User, t) \<and> transcript s2 ! Suc n = (Bot, a))"
proof -
  let ?s1 = "sendChatMessage s"
  let ?b = "Suc (length (nodes s))"
  note s1 = sendChatMessage_begin [OF assms(1-3)]
  have t1: "transcript ?s1 = transcript s @ [(User, t), (Bot, [])]"
    using transcript_append [OF assms(4), of t "[]"] by (simp add: s1 transcript_def)
  let ?s2 = "sendChatMessage_settled ?b (Resolved a) (?s1\<lparr>awaiting := remove1 (AwaitChat ?b) (awaiting ?s1)\<rparr>)"
  have f: "fire parse (ChatSettled ?b (Resolved a)) ?s1 = Some ?s2"
    by (simp add: resume_def s1)
  have c2: "chatMessages ?s2 = chatMessages ?s1"
    by (simp add: s1 sendChatMessage_settled_def setTextContent_def enableChatInput_def)
  have t2: "transcript ?s2 = transcript s @ [(User, t), (Bot, a)]"
    using transcript_append [OF assms(4), of t a]
    by (simp add: s1 sendChatMessage_settled_def setTextContent_def enableChatInput_def
        transcript_def update_last_of_two nth_last_of_two)
  have n: "transcript ?s2 ! length (transcript s) = (User, t)"
    "transcript ?s2 ! Suc (length (transcript s)) = (Bot, a)"
    by (simp_all add: t2 nth_append)
  show ?thesis
    unfolding Let_def using f c2 t1 t2 n by (simp add: s1)
qed

theorem chat_exchange_witness:
  "run plainURL blankPopup chatEvents \<noteq> None \<and>
   transcript (the (run plainURL blankPopup chatEvents)) =
     [(User, js ''hi''), (Bot, js ''hello'')] \<and>
   trim (chatInput (the (run plainURL blankPopup chatEvents))) = js ''why?'' \<and>
   transcript (sendChatMessage (the (run plainURL blankPopup chatEvents))) =
     [(User, js ''hi''), (Bot, js ''hello''), (User, js ''why?''), (Bot, [])] \<and>
   transcript (the (fire plainURL (ChatSettled 3 (Resolved (js ''because'')))
       (sendChatMessage (the (run plainURL blankPopup chatEvents))))) =
     [(User, js ''hi''), (Bot, js ''hello''), (User, js ''why?''), (Bot, js ''because'')]"
proof -
  obtain s where r: "run plainURL blankPopup chatEvents = Some s"
    and t: "transcript s = [(User, js ''hi''), (Bot, js ''hello'')]"
    and i: "trim (chatInput s) = js ''why?''"
    and v: "currentVideo s = Some \<lparr>videoId = js ''abc'',
               videoUrl = js ''https://www.youtube.com/watch?v=abc'', title = js ''Intro'',
               fullUrl = js ''https://www.youtube.com/watch?v=abc''\<rparr>"
    and n: "length (nodes s) = 2" and w: "\<forall>i\<in>set (chatMessages s). i < length (nodes s)"
    by (simp add: popup_eval url_eval title_eval isWhiteSpace_def)
  have ne: "js ''why?'' \<noteq> []" by (simp add: js_def)
  obtain s2 where "fire plainURL (ChatSettled 3 (Resolved (js ''because''))) (sendChatMessage s) = Some s2"
    and "transcript s2 = transcript s @ [(User, js ''why?''), (Bot, js ''because'')]"
    and "transcript (sendChatMessage s) = transcript s @ [(User, js ''why?''), (Bot, [])]"
    using chat_exchange [OF i ne v w, of plainURL "js ''because''"] n
    by (auto simp: Let_def numeral_3_eq_3)
  with r t i show ?thesis by simp
qed

lemma trim_empty [simp]: "trim [] = []"
  by (simp add: trim_def)

lemma filter_pos: "p \<in> set ps \<Longrightarrow> P p \<Longrightarrow> 0 < length (filter P ps)"
  by (induction ps) auto

lemma filter_remove1:
  "p \<in> set ps \<Longrightarrow>
   length (filter P (remove1 p ps)) =
     (if P p then length (filter P ps) - 1 else length (filter P ps))"
proof (induction ps)
  case Nil
  then show ?case by simp
next
  case (Cons q ps)
  show ?case
  proof (cases "p = q")
    case True
    then show ?thesis by simp
  next
    case False
    with Cons have IH: "length (filter P (remove1 p ps)) =
     (if P p then length (filter P ps) - 1 else length (filter P ps))"
      and mem: "p \<in> set ps" by auto
    have "P p \<Longrightarrow> 0 < length (filter P ps)"
      using mem by (rule filter_pos)
    with IH False show ?thesis by auto
  qed
qed

lemma quiet_sameChat: "sameChat s s' \<Longrightarrow> quiet s \<Longrightarrow> quiet s'"
  by (simp add: sameChat_def quiet_def)

lemma sameChat_showError [simp]: "sameChat s (showError m s)"
  by (simp add: sameChat_def showError_def chatPending_def)

lemma sameChat_loadVideoInfo: "sameChat s (loadVideoInfo parse r s)"
  by (cases r)
    (auto simp: sameChat_def chatPending_def showError_def showSuccess_def disableControls_def
      updateVideoInfo_def split: option.splits)

lemma sameChat_generateQuiz: "sameChat s (generateQuiz s)"
  by (auto simp: sameChat_def chatPending_def generateQuiz_def showError_def showLoading_def
      split: option.splits)

lemma sameChat_generateQuiz_settled: "sameChat s (generateQuiz_settled r s)"
  by (auto simp: sameChat_def chatPending_def generateQuiz_settled_def showError_def
      showSuccess_def showLoading_def displayQuiz_def split: sum.splits)

lemma sameChat_selectOption: "sameChat s (selectOption i j s)"
  by (auto simp: sameChat_def chatPending_def selectOption_def Let_def)

lemma sameChat_submitQuiz: "sameChat s (submitQuiz s)"
  by (auto simp: sameChat_def chatPending_def submitQuiz_def showError_def showLoading_def
      split: option.splits)

lemma sameChat_submitQuiz_settled: "sameChat s (submitQuiz_settled r s)"
  by (auto simp: sameChat_def chatPending_def submitQuiz_settled_def showError_def
      showSuccess_def showLoading_def displayQuizResults_def Let_def
      split: sum.splits option.splits)

lemma sameChat_generateSummary: "sameChat s (generateSummary s)"
  by (auto simp: sameChat_def chatPending_def generateSummary_def showError_def showLoading_def
      split: option.splits)

lemma sameChat_generateSummary_settled: "sameChat s (generateSummary_settled r s)"
  by (auto simp: sameChat_def chatPending_def generateSummary_settled_def showError_def
      showSuccess_def showLoading_def displaySummary_def split: sum.splits)

lemma sameChat_extractTopics: "sameChat s (extractTopics s)"
  by (auto simp: sameChat_def chatPending_def extractTopics_def showError_def showLoading_def
      split: option.splits)

lemma sameChat_extractTopics_settled: "sameChat s (extractTopics_settled r s)"
  by (auto simp: sameChat_def chatPending_def extractTopics_settled_def showError_def
      showSuccess_def showLoading_def displayTopics_def split: sum.splits)

lemma sameChat_startChat: "sameChat s (startChat s)"
  by (auto simp: sameChat_def chatPending_def startChat_def showError_def showSuccess_def
      split: option.splits)

lemma sameChat_timerCallback: "sameChat s (timerCallback k s)"
  by (cases k) (auto simp: sameChat_def chatPending_def)

lemma quiet_sendChatMessage:
  assumes "quiet s" "chatPending s = 0"
  shows "quiet (sendChatMessage s)"
  using assms
  by (auto simp: quiet_def chatPending_def sendChatMessage_def Let_def addChatMessage_def
      setTextContent_def enableChatInput_def split: option.splits)

lemma quiet_sendChatMessage_settled:
  assumes "quiet s" "AwaitChat b \<in> set (awaiting s)"
  shows "quiet (sendChatMessage_settled b r (s\<lparr>awaiting := remove1 (AwaitChat b) (awaiting s)\<rparr>))"
proof -
  have "chatPending (s\<lparr>awaiting := remove1 (AwaitChat b) (awaiting s)\<rparr>) = 0"
    using assms filter_remove1 [OF assms(2), of isChat] by (simp add: chatPending_def quiet_def)
  then show ?thesis
    by (auto simp: quiet_def chatPending_def sendChatMessage_settled_def setTextContent_def
        enableChatInput_def split: sum.splits)
qed

lemma quiet_resume_other:
  assumes "quiet s" "p \<in> set (awaiting s)" "\<not> isChat p" "\<And>x. sameChat x (f x)"
  shows "quiet (f (s\<lparr>awaiting := remove1 p (awaiting s)\<rparr>))"
proof -
  have "sameChat s (s\<lparr>awaiting := remove1 p (awaiting s)\<rparr>)"
    using filter_remove1 [OF assms(2), of isChat] assms(3) by (simp add: sameChat_def chatPending_def)
  then have "quiet (s\<lparr>awaiting := remove1 p (awaiting s)\<rparr>)"
    using assms(1) by (rule quiet_sameChat)
  with assms(4) show ?thesis by (rule quiet_sameChat)
qed

lemma quiet_enabled:
  assumes "quiet s" "\<not> chatInputDisabled s \<or> \<not> sendChatBtnDisabled s"
  shows "chatPending s = 0"
  using assms by (auto simp: quiet_def)

lemma quiet_fire:
  assumes "quiet s" "fire parse e s = Some s'"
  shows "quiet s'"
proof (cases e)
  case (TabQueried r)
  with assms show ?thesis
    by (auto simp: resume_def intro!: quiet_resume_other sameChat_loadVideoInfo split: if_splits)
next
  case (ClickDifficulty d)
  with assms show ?thesis by (auto simp: quiet_def chatPending_def)
next
  case ClickGenerateQuiz
  with assms show ?thesis by (auto intro: quiet_sameChat [OF sameChat_generateQuiz])
next
  case (QuizSettled r)
  with assms show ?thesis
    by (auto simp: resume_def intro!: quiet_resume_other sameChat_generateQuiz_settled
        split: if_splits)
next
  case (ClickOption i j)
  with assms show ?thesis
    by (auto intro: quiet_sameChat [OF sameChat_selectOption] split: if_splits)
next
  case ClickSubmitQuiz
  with assms show ?thesis by (auto intro: quiet_sameChat [OF sameChat_submitQuiz])
next
  case (VerifySettled r)
  with assms show ?thesis
    by (auto simp: resume_def intro!: quiet_resume_other sameChat_submitQuiz_settled
        split: if_splits)
next
  case ClickGenerateSummary
  with assms show ?thesis by (auto intro: quiet_sameChat [OF sameChat_generateSummary])
next
  case (SummarySettled r)
  with assms show ?thesis
    by (auto simp: resume_def intro!: quiet_resume_other sameChat_generateSummary_settled
        split: if_splits)
next
  case ClickExtractTopics
  with assms show ?thesis by (auto intro: quiet_sameChat [OF sameChat_extractTopics])
next
  case (TopicsSettled r)
  with assms show ?thesis
    by (auto simp: resume_def intro!: quiet_resume_other sameChat_extractTopics_settled
        split: if_splits)
next
  case ClickStartChat
  with assms show ?thesis by (auto intro: quiet_sameChat [OF sameChat_startChat])
next
  case (TypeChat v)
  with assms have "chatPending s = 0" "s' = s\<lparr>chatInput := v\<rparr>"
    by (auto simp: quiet_def split: if_splits)
  then show ?thesis by (simp add: quiet_def chatPending_def)
next
  case ClickSendChat
  with assms show ?thesis
    by (auto intro: quiet_sendChatMessage quiet_enabled split: if_splits)
next
  case PressEnterChat
  with assms show ?thesis
    by (auto intro: quiet_sendChatMessage quiet_enabled split: if_splits)
next
  case (ChatSettled b r)
  with assms show ?thesis
    by (auto simp: resume_def intro: quiet_sendChatMessage_settled split: if_splits)
next
  case (TimerFires k)
  with assms have "s' = timerCallback (snd (timers s ! k))
      (s\<lparr>timers := take k (timers s) @ drop (Suc k) (timers s)\<rparr>)"
    by (auto split: if_splits)
  moreover have "quiet (s\<lparr>timers := take k (timers s) @ drop (Suc k) (timers s)\<rparr>)"
    using assms(1) by (simp add: quiet_def chatPending_def)
  ultimately show ?thesis
    using quiet_sameChat [OF sameChat_timerCallback] by simp
next
  case (Tick d)
  with assms show ?thesis by (auto simp: quiet_def chatPending_def)
qed

lemma quiet_run: "quiet s \<Longrightarrow> run parse s evs = Some s' \<Longrightarrow> quiet s'"
proof (induction evs arbitrary: s)
  case Nil
  then show ?case by simp
next
  case (Cons e evs)
  then show ?case by (auto split: option.splits dest: quiet_fire)
qed


text \<open>
  Claim C5. In every state that the popup reaches from its start, at most one chat call
  waits; and while one waits, sending is without effect: the browser sends neither the
  click nor the key to the disabled controls, and a call of \<open>sendChatMessage\<close> itself
  finds the input empty and leaves the state (transcript and requests included) as it is.
\<close>

theorem chat_single_flight:
  assumes "started s0" and "run parse s0 evs = Some s"
  shows "chatPending s \<le> 1 \<and>
         (chatPending s = 1 \<longrightarrow>
            sendChatMessage s = s \<and>
            fire parse ClickSendChat s = None \<and> fire parse PressEnterChat s = None)"
proof -
  have "quiet s0" using assms(1) by (simp add: started_def quiet_def chatPending_def)
  then have "quiet s" using assms(2) by (rule quiet_run)
  then show ?thesis by (auto simp: quiet_def sendChatMessage_def)
qed

theorem chat_single_flight_witness:
  "started blankPopup \<and>
   run plainURL blankPopup (chatEvents @ [PressEnterChat]) \<noteq> None \<and>
   chatPending (the (run plainURL blankPopup (chatEvents @ [PressEnterChat]))) = 1 \<and>
   sendChatMessage (the (run plainURL blankPopup (chatEvents @ [PressEnterChat]))) =
     the (run plainURL blankPopup (chatEvents @ [PressEnterChat])) \<and>
   fire plainURL ClickSendChat (the (run plainURL blankPopup (chatEvents @ [PressEnterChat]))) = None \<and>
   fire plainURL PressEnterChat (the (run plainURL blankPopup (chatEvents @ [PressEnterChat]))) = None"
proof -
  have st: "started blankPopup" by (simp add: started_def blankPopup_def)
  obtain s where r: "run plainURL blankPopup (chatEvents @ [PressEnterChat]) = Some s"
    and p: "chatPending s = 1"
    by (simp add: popup_eval url_eval title_eval isWhiteSpace_def)
  show ?thesis
    using chat_single_flight [OF st r] st r p by simp
qed

end
